theory Spec2Isabelle
  imports Main "HOL-Library.Word"
begin

section \<open>Base7683: the settlement contract\<close>

text \<open>
  The Solidity contract \<open>Base7683\<close> (the second document of
  \<^verbatim>\<open>solvers/eco/listener.ts\<close>) is embedded as functions from a storage record to
  either a revert reason or the storage after the call. A revert undoes every write
  of the call, so a reverting call returns only the reason.
\<close>

subsection \<open>Solidity value types\<close>

type_synonym uint256 = "256 word"
type_synonym uint32 = "32 word"
type_synonym bytes32 = "256 word"
type_synonym address = "160 word"
type_synonym bytes = "8 word list"

text \<open>\<open>enum OrderStatus\<close>; the default value of a storage slot is the first member.\<close>

datatype OrderStatus = UNFILLED | OPENED | FILLED | SETTLED | REFUNDED

text \<open>
  Modelled from the spec: \<open>struct OrderData\<close>, declared in
  \<^verbatim>\<open>libs/OrderEncoder.sol\<close>, which is not among the sources. The fields are those of
  section 3 of the spec, with the widths that the contract's own comparisons and
  assignments fix (\<open>originDomain\<close> against the \<open>uint32 _localDomain\<close>,
  \<open>senderNonce\<close> against the \<open>uint256\<close> counter, \<open>fillDeadline\<close> assigned from a
  \<open>uint32\<close>, tokens and recipient passed to \<open>TypeCasts.bytes32ToAddress\<close>, amounts
  passed to \<open>safeTransferFrom\<close>).
\<close>

record OrderData =
  sender :: bytes32
  recipient :: bytes32
  inputToken :: bytes32
  outputToken :: bytes32
  amountIn :: uint256
  amountOut :: uint256
  senderNonce :: uint256
  originDomain :: uint32
  destinationDomain :: uint32
  fillDeadline :: uint32

text \<open>
  The ERC-7683 structs come from \<^verbatim>\<open>ERC7683/IERC7683.sol\<close>, also not among the sources.
  The records below hold the fields that \<open>Base7683\<close> reads or writes. The chain-id
  fields receive a \<open>uint32\<close> by implicit conversion, which Solidity only allows
  to a type at least as wide, so they are modelled by their value, a \<open>nat\<close>.
\<close>

record Output =
  token :: bytes32
  amount :: uint256
  out_recipient :: bytes32
  chainId :: nat

record FillInstruction =
  destinationChainId :: nat
  destinationSettler :: bytes32
  originData :: bytes

record ResolvedCrossChainOrder =
  user :: address
  originChainId :: nat
  openDeadline :: uint32
  res_fillDeadline :: uint32
  minReceived :: "Output list"
  maxSpent :: "Output list"
  fillInstructions :: "FillInstruction list"

record OnchainCrossChainOrder =
  onchain_fillDeadline :: uint32
  onchain_orderDataType :: bytes32
  onchain_orderData :: bytes

record GaslessCrossChainOrder =
  gasless_user :: address
  gasless_openDeadline :: uint32
  gasless_fillDeadline :: uint32
  gasless_orderDataType :: bytes32
  gasless_orderData :: bytes

subsection \<open>Reverts, events, storage\<close>

text \<open>
  The custom errors that the contract raises, and the reverts that come from code
  outside its text: a failed \<open>abi.decode\<close> in \<open>OrderEncoder.decode\<close>, a revert of
  \<open>_mustHaveRemoteCounterpart\<close>, a failed \<open>safeTransferFrom\<close>, and the arithmetic
  panic of the checked \<open>+=\<close> of Solidity 0.8.
\<close>

datatype error =
    InvalidOrderType bytes32
  | InvalidOriginDomain uint32
  | InvalidOrderId
  | OrderExpired
  | InvalidOrderDomain
  | InvalidOrderStatus
  | InvalidSenderNonce
  | DecodeError
  | NoRemoteCounterpart uint32
  | TransferFailed
  | ArithmeticPanic

datatype event =
    Open bytes32 ResolvedCrossChainOrder
  | Filled bytes32 bytes bytes

text \<open>
  The storage of the contract (Solidity mappings are total, with zero defaults), the
  log of emitted events, and the state \<open>'t\<close> of the ERC-20 tokens that the contract
  calls.
\<close>

record 't storage =
  senderNonces :: "address \<Rightarrow> uint256"
  orders :: "bytes32 \<Rightarrow> OrderData"
  orderFiller :: "bytes32 \<Rightarrow> address"
  orderStatus :: "bytes32 \<Rightarrow> OrderStatus"
  emitted :: "event list"
  tokens :: 't

text \<open>What a call sees of its transaction: \<open>msg.sender\<close> and \<open>block.timestamp\<close>.\<close>

record call =
  msg_sender :: address
  block_timestamp :: uint256

text \<open>
  What the contract takes from outside its own text: the immutable \<open>_localDomain\<close>,
  its own address, the three functions of the library \<open>OrderEncoder\<close>
  (\<open>decode\<close> is \<open>None\<close> where \<open>abi.decode\<close> reverts), the abstract
  \<open>_mustHaveRemoteCounterpart\<close> (\<open>None\<close> where it reverts) and the token call
  \<open>IERC20(token).safeTransferFrom(from, to, amount)\<close> (\<open>None\<close> where it reverts).
\<close>

record 't deployment =
  localDomain :: uint32
  this :: address
  orderDataType :: bytes32
  decode :: "bytes \<Rightarrow> OrderData option"
  encoder_id :: "OrderData \<Rightarrow> bytes32"
  mustHaveRemoteCounterpart :: "uint32 \<Rightarrow> bytes32 option"
  safeTransferFrom :: "address \<Rightarrow> address \<Rightarrow> address \<Rightarrow> uint256 \<Rightarrow> 't \<Rightarrow> 't option"

subsection \<open>The functions of the contract\<close>

text \<open>\<open>TypeCasts.bytes32ToAddress\<close>: the low 160 bits.\<close>

definition bytes32ToAddress :: "bytes32 \<Rightarrow> address" where
  "bytes32ToAddress b = ucast b"

definition getOrderId :: "'t deployment \<Rightarrow> OrderData \<Rightarrow> bytes32" where
  "getOrderId d orderData = encoder_id d orderData"

text \<open>\<open>_resolvedOrder\<close>, a view: it reads the sender's counter and writes nothing.\<close>

definition resolvedOrder ::
  "'t deployment \<Rightarrow> 't storage \<Rightarrow> bytes32 \<Rightarrow> address \<Rightarrow> bytes \<Rightarrow> uint32 \<Rightarrow> uint32
     \<Rightarrow> error + (ResolvedCrossChainOrder \<times> OrderData)" where
  "resolvedOrder d s orderType sndr orderBytes openDl fillDl =
     (if orderType \<noteq> orderDataType d then Inl (InvalidOrderType orderType)
      else case decode d orderBytes of
        None \<Rightarrow> Inl DecodeError
      | Some decoded \<Rightarrow>
          if originDomain decoded \<noteq> localDomain d
            then Inl (InvalidOriginDomain (originDomain decoded))
          else if senderNonce decoded \<noteq> senderNonces s sndr then Inl InvalidSenderNonce
          else (case mustHaveRemoteCounterpart d (destinationDomain decoded) of
            None \<Rightarrow> Inl (NoRemoteCounterpart (destinationDomain decoded))
          | Some settler \<Rightarrow>
              let orderData = decoded\<lparr>fillDeadline := fillDl\<rparr>;
                  spent = [\<lparr>token = outputToken orderData,
                            amount = amountOut orderData,
                            out_recipient = recipient orderData,
                            chainId = unat (destinationDomain orderData)\<rparr>];
                  received = [\<lparr>token = inputToken orderData,
                               amount = amountIn orderData,
                               out_recipient = 0,
                               chainId = unat (originDomain orderData)\<rparr>];
                  instructions = [\<lparr>destinationChainId = unat (destinationDomain orderData),
                                   destinationSettler = settler,
                                   originData = orderBytes\<rparr>]
              in Inr (\<lparr>user = sndr,
                       originChainId = unat (localDomain d),
                       openDeadline = openDl,
                       res_fillDeadline = fillDl,
                       minReceived = received,
                       maxSpent = spent,
                       fillInstructions = instructions\<rparr>,
                      orderData)))"

text \<open>The checked \<open>senderNonce[a] += 1\<close>.\<close>

definition bumpNonce :: "address \<Rightarrow> 't storage \<Rightarrow> error + 't storage" where
  "bumpNonce a s =
     (if senderNonces s a = - 1 then Inl ArithmeticPanic
      else Inr (s\<lparr>senderNonces := (senderNonces s)(a := senderNonces s a + 1)\<rparr>))"

text \<open>\<open>openFor\<close>: the signature and the filler data are not read.\<close>

definition openFor ::
  "'t deployment \<Rightarrow> call \<Rightarrow> GaslessCrossChainOrder \<Rightarrow> 't storage \<Rightarrow> error + 't storage" where
  "openFor d c order s =
     (case resolvedOrder d s (gasless_orderDataType order) (gasless_user order)
             (gasless_orderData order) (gasless_openDeadline order) (gasless_fillDeadline order) of
        Inl e \<Rightarrow> Inl e
      | Inr (resolved, orderData) \<Rightarrow>
          let orderId = getOrderId d orderData;
              s1 = s\<lparr>orders := (orders s)(orderId := orderData)\<rparr>;
              s2 = s1\<lparr>orderStatus := (orderStatus s1)(orderId := OPENED)\<rparr>
          in (case bumpNonce (gasless_user order) s2 of
               Inl e \<Rightarrow> Inl e
             | Inr s3 \<Rightarrow> Inr (s3\<lparr>emitted := emitted s3 @ [Open orderId resolved]\<rparr>)))"

text \<open>
  \<open>open\<close> (a keyword of Isabelle, hence \<open>open_order\<close>): the caller is the sender
  and pays the input amount to the contract.
\<close>

definition open_order ::
  "'t deployment \<Rightarrow> call \<Rightarrow> OnchainCrossChainOrder \<Rightarrow> 't storage \<Rightarrow> error + 't storage" where
  "open_order d c order s =
     (case resolvedOrder d s (onchain_orderDataType order) (msg_sender c)
             (onchain_orderData order) (- 1) (onchain_fillDeadline order) of
        Inl e \<Rightarrow> Inl e
      | Inr (resolved, orderData) \<Rightarrow>
          let orderId = getOrderId d orderData;
              s1 = s\<lparr>orders := (orders s)(orderId := orderData)\<rparr>;
              s2 = s1\<lparr>orderStatus := (orderStatus s1)(orderId := OPENED)\<rparr>
          in (case bumpNonce (msg_sender c) s2 of
               Inl e \<Rightarrow> Inl e
             | Inr s3 \<Rightarrow>
                (case safeTransferFrom d (bytes32ToAddress (inputToken orderData))
                        (msg_sender c) (this d) (amountIn orderData) (tokens s3) of
                   None \<Rightarrow> Inl TransferFailed
                 | Some t \<Rightarrow>
                     Inr (s3\<lparr>tokens := t, emitted := emitted s3 @ [Open orderId resolved]\<rparr>))))"

text \<open>\<open>resolveFor\<close> and \<open>resolve\<close>: the first component of \<open>_resolvedOrder\<close>.\<close>

definition resolveFor ::
  "'t deployment \<Rightarrow> 't storage \<Rightarrow> GaslessCrossChainOrder \<Rightarrow> error + ResolvedCrossChainOrder" where
  "resolveFor d s order =
     map_sum (\<lambda>e. e) fst
       (resolvedOrder d s (gasless_orderDataType order) (gasless_user order)
          (gasless_orderData order) (gasless_openDeadline order) (gasless_fillDeadline order))"

definition resolve ::
  "'t deployment \<Rightarrow> 't storage \<Rightarrow> call \<Rightarrow> OnchainCrossChainOrder
     \<Rightarrow> error + ResolvedCrossChainOrder" where
  "resolve d s c order =
     map_sum (\<lambda>e. e) fst
       (resolvedOrder d s (onchain_orderDataType order) (msg_sender c)
          (onchain_orderData order) (- 1) (onchain_fillDeadline order))"

text \<open>
  \<open>fill\<close>: the five checks in the order of the source, then the three writes, the
  event, and last the payment of the output amount by the caller to the recipient.
  The \<open>uint32\<close> deadline is widened for the comparison with \<open>block.timestamp\<close>.
\<close>

definition fill ::
  "'t deployment \<Rightarrow> call \<Rightarrow> bytes32 \<Rightarrow> bytes \<Rightarrow> 't storage \<Rightarrow> error + 't storage" where
  "fill d c orderId originBytes s =
     (case decode d originBytes of
        None \<Rightarrow> Inl DecodeError
      | Some orderData \<Rightarrow>
          if orderId \<noteq> getOrderId d orderData then Inl InvalidOrderId
          else if (ucast (fillDeadline orderData) :: uint256) > block_timestamp c
            then Inl OrderExpired
          else if destinationDomain orderData \<noteq> localDomain d then Inl InvalidOrderDomain
          else (case mustHaveRemoteCounterpart d (originDomain orderData) of
            None \<Rightarrow> Inl (NoRemoteCounterpart (originDomain orderData))
          | Some _ \<Rightarrow>
              if orderStatus s orderId \<noteq> UNFILLED then Inl InvalidOrderStatus
              else
                let s1 = s\<lparr>orders := (orders s)(orderId := orderData)\<rparr>;
                    s2 = s1\<lparr>orderStatus := (orderStatus s1)(orderId := FILLED)\<rparr>;
                    s3 = s2\<lparr>orderFiller := (orderFiller s2)(orderId := msg_sender c)\<rparr>;
                    s4 = s3\<lparr>emitted := emitted s3 @ [Filled orderId originBytes []]\<rparr>
                in (case safeTransferFrom d (bytes32ToAddress (outputToken orderData))
                          (msg_sender c) (bytes32ToAddress (recipient orderData))
                          (amountOut orderData) (tokens s4) of
                     None \<Rightarrow> Inl TransferFailed
                   | Some t \<Rightarrow> Inr (s4\<lparr>tokens := t\<rparr>))))"

text \<open>
  A transaction: the storage after the call and the revert reason, if any. A
  reverted call leaves the storage as it was.
\<close>

definition transact :: "('t storage \<Rightarrow> error + 't storage) \<Rightarrow> 't storage \<Rightarrow> 't storage \<times> error option" where
  "transact f s = (case f s of Inl e \<Rightarrow> (s, Some e) | Inr s' \<Rightarrow> (s', None))"

subsection \<open>Transactions and the storage they reach\<close>

text \<open>
  The constructor only sets \<open>_localDomain\<close>, so a new contract has every storage slot
  at zero: all counters 0, every status \<open>UNFILLED\<close>, no order, no filler, no event.
\<close>

definition no_order :: OrderData where
  "no_order = \<lparr>sender = 0, recipient = 0, inputToken = 0, outputToken = 0, amountIn = 0,
     amountOut = 0, senderNonce = 0, originDomain = 0, destinationDomain = 0, fillDeadline = 0\<rparr>"

definition genesis :: "'t \<Rightarrow> 't storage" where
  "genesis t =
     \<lparr>senderNonces = (\<lambda>_. 0), orders = (\<lambda>_. no_order), orderFiller = (\<lambda>_. 0),
      orderStatus = (\<lambda>_. UNFILLED), emitted = [], tokens = t\<rparr>"

text \<open>
  The storage changes only through calls of the three external functions that write,
  each as a transaction, and the token state also through whatever else happens to
  the tokens outside the contract.
\<close>

datatype 't tx =
    OpenTx call OnchainCrossChainOrder
  | OpenForTx call GaslessCrossChainOrder
  | FillTx call bytes32 bytes
  | TokenTx 't

fun apply_tx :: "'t deployment \<Rightarrow> 't storage \<Rightarrow> 't tx \<Rightarrow> 't storage" where
  "apply_tx d s (OpenTx c order) = fst (transact (open_order d c order) s)"
| "apply_tx d s (OpenForTx c order) = fst (transact (openFor d c order) s)"
| "apply_tx d s (FillTx c orderId originBytes) = fst (transact (fill d c orderId originBytes) s)"
| "apply_tx d s (TokenTx t) = s\<lparr>tokens := t\<rparr>"

definition run :: "'t deployment \<Rightarrow> 't storage \<Rightarrow> 't tx list \<Rightarrow> 't storage" where
  "run d s txs = foldl (apply_tx d) s txs"

section \<open>The signing environment\<close>

text \<open>
  \<open>getMultiProvider\<close> (the TypeScript file whose name is not known). The two
  credentials come from \<^verbatim>\<open>config.js\<close> and are strings or \<open>undefined\<close>; JavaScript
  takes \<open>undefined\<close> and the empty string for false.
\<close>

record config =
  PRIVATE_KEY :: "string option"
  MNEMONIC :: "string option"

definition truthy :: "string option \<Rightarrow> bool" where
  "truthy v = (case v of None \<Rightarrow> False | Some str \<Rightarrow> str \<noteq> [])"

text \<open>The string that a value holds; only read where the value is truthy.\<close>

definition string_of :: "string option \<Rightarrow> string" where
  "string_of v = (case v of None \<Rightarrow> [] | Some str \<Rightarrow> str)"

datatype startup_error = ConfigurationError string | WalletError

text \<open>
  What the function calls and the sources do not hold: \<open>ensure0x\<close> of the
  Hyperlane utilities and the two ways to build a \<open>NonceKeeperWallet\<close>, each
  \<open>None\<close> where it throws.
\<close>

record 'w wallet_lib =
  ensure0x :: "string \<Rightarrow> string"
  newNonceKeeperWallet :: "string \<Rightarrow> 'w option"
  fromMnemonic :: "string \<Rightarrow> 'w option"

record 'w multiProvider =
  sharedSigner :: "'w option"

text \<open>The objects built and calls made, in order.\<close>

datatype 'w step = NewMultiProvider | BuildWallet | SetSharedSigner 'w

definition getMultiProvider ::
  "'w wallet_lib \<Rightarrow> config \<Rightarrow> 'w step list \<times> (startup_error + 'w multiProvider)" where
  "getMultiProvider lib cfg =
     (if \<not> truthy (PRIVATE_KEY cfg) \<and> \<not> truthy (MNEMONIC cfg)
        then ([], Inl (ConfigurationError ''Either a private key or mnemonic must be provided''))
      else
        let provider = \<lparr>sharedSigner = None\<rparr>;
            wallet = (if truthy (PRIVATE_KEY cfg)
                        then newNonceKeeperWallet lib (ensure0x lib (string_of (PRIVATE_KEY cfg)))
                      else fromMnemonic lib (string_of (MNEMONIC cfg)))
        in (case wallet of
              None \<Rightarrow> ([NewMultiProvider, BuildWallet], Inl WalletError)
            | Some w \<Rightarrow>
                ([NewMultiProvider, BuildWallet, SetSharedSigner w],
                 Inr (provider\<lparr>sharedSigner := Some w\<rparr>))))"

section \<open>A small deployment for the examples\<close>

text \<open>
  A codec of one byte for each field but the nonce, which is the big-endian tail of
  at most 32 bytes; an id that packs the ten fields base 256; two registered domains;
  and a token ledger that moves balances and reverts on a shortfall. The theorems
  below hold for every deployment; this one instantiates them.
\<close>

definition be_word :: "bytes \<Rightarrow> uint256" where
  "be_word bs = foldl (\<lambda>acc b. 256 * acc + ucast b) 0 bs"

fun sample_decode :: "bytes \<Rightarrow> OrderData option" where
  "sample_decode (a # b # c # e # f # g # i # j # k # nonce_bytes) =
     (if length nonce_bytes \<le> 32
      then Some \<lparr>sender = ucast a, recipient = ucast b, inputToken = ucast c,
                 outputToken = ucast e, amountIn = ucast f, amountOut = ucast g,
                 senderNonce = be_word nonce_bytes, originDomain = ucast i,
                 destinationDomain = ucast j, fillDeadline = ucast k\<rparr>
      else None)"
| "sample_decode _ = None"

definition sample_id :: "OrderData \<Rightarrow> bytes32" where
  "sample_id od =
     ucast (fillDeadline od) + 256 * (ucast (destinationDomain od) + 256 * (ucast (originDomain od)
       + 256 * (senderNonce od + 256 * (amountOut od + 256 * (amountIn od + 256 * (outputToken od
       + 256 * (inputToken od + 256 * (recipient od + 256 * sender od))))))))"

definition sample_counterpart :: "uint32 \<Rightarrow> bytes32 option" where
  "sample_counterpart n = (if n = 1 then Some 161 else if n = 2 then Some 162 else None)"

type_synonym ledger = "address \<Rightarrow> address \<Rightarrow> uint256"

definition sample_transferFrom ::
  "address \<Rightarrow> address \<Rightarrow> address \<Rightarrow> uint256 \<Rightarrow> ledger \<Rightarrow> ledger option" where
  "sample_transferFrom tok src dst amt bal =
     (if bal tok src < amt then None
      else let debited = (bal tok)(src := bal tok src - amt)
           in Some (bal(tok := debited(dst := debited dst + amt))))"

definition sample_deployment :: "uint32 \<Rightarrow> ledger deployment" where
  "sample_deployment chain =
     \<lparr>localDomain = chain, this = 30339, orderDataType = 13, decode = sample_decode,
      encoder_id = sample_id, mustHaveRemoteCounterpart = sample_counterpart,
      safeTransferFrom = sample_transferFrom\<rparr>"

text \<open>Fresh storage, except that the sender at address 7 has counter \<open>n\<close>; every
  holder owns \<open>funds\<close> of every token.\<close>

definition sample_storage :: "uint256 \<Rightarrow> uint256 \<Rightarrow> ledger storage" where
  "sample_storage n funds =
     \<lparr>senderNonces = (\<lambda>a. if a = 7 then n else 0), orders = (\<lambda>_. no_order),
      orderFiller = (\<lambda>_. 0), orderStatus = (\<lambda>_. UNFILLED), emitted = [],
      tokens = (\<lambda>_ _. funds)\<rparr>"

text \<open>The order of the spec's scenario: sender 7, recipient 8, tokens 3 and 4, 100 in,
  95 out, from domain 1 to domain 2, with nonce \<open>n\<close> and deadline \<open>dl\<close>; and its
  bytes in the sample codec.\<close>

definition sample_order :: "uint256 \<Rightarrow> uint32 \<Rightarrow> OrderData" where
  "sample_order n dl =
     \<lparr>sender = 7, recipient = 8, inputToken = 3, outputToken = 4, amountIn = 100,
      amountOut = 95, senderNonce = n, originDomain = 1, destinationDomain = 2,
      fillDeadline = dl\<rparr>"

definition sample_bytes :: "bytes \<Rightarrow> 8 word \<Rightarrow> bytes" where
  "sample_bytes n dl = [7, 8, 3, 4, 100, 95, 1, 2, dl] @ n"

datatype sample_wallet = KeyWallet string | MnemonicWallet string

definition sample_lib :: "sample_wallet wallet_lib" where
  "sample_lib =
     \<lparr>ensure0x = (\<lambda>str. if take 2 str = ''0x'' then str else ''0x'' @ str),
      newNonceKeeperWallet = (\<lambda>str. Some (KeyWallet str)),
      fromMnemonic = (\<lambda>str. Some (MnemonicWallet str))\<rparr>"

text \<open>
  A caller, its on-chain order with nonce byte \<open>n\<close> (deadline 50 in the bytes, 60 as
  argument), what that order resolves to, and the storage of a new contract on chain 1
  after the caller has opened the order with nonce 0.
\<close>

definition sample_call :: call where
  "sample_call = \<lparr>msg_sender = 7, block_timestamp = 10\<rparr>"

definition sample_onchain :: "8 word \<Rightarrow> OnchainCrossChainOrder" where
  "sample_onchain n =
     \<lparr>onchain_fillDeadline = 60, onchain_orderDataType = 13,
      onchain_orderData = sample_bytes [n] 50\<rparr>"

definition sample_opened :: "uint256 \<Rightarrow> ledger storage" where
  "sample_opened funds =
     run (sample_deployment 1) (genesis (\<lambda>_ _. funds)) [OpenTx sample_call (sample_onchain 0)]"

definition sample_resolved_order :: "8 word \<Rightarrow> ResolvedCrossChainOrder" where
  "sample_resolved_order n =
     \<lparr>user = 7, originChainId = 1, openDeadline = - 1, res_fillDeadline = 60,
      minReceived = [\<lparr>token = 3, amount = 100, out_recipient = 0, chainId = 1\<rparr>],
      maxSpent = [\<lparr>token = 4, amount = 95, out_recipient = 8, chainId = 2\<rparr>],
      fillInstructions = [\<lparr>destinationChainId = 2, destinationSettler = 162,
                           originData = sample_bytes [n] 50\<rparr>]\<rparr>"

section \<open>Properties of \<open>_resolvedOrder\<close>\<close>

lemma resolvedOrder_Inr_iff:
  "resolvedOrder d s ty a raw odl fdl = Inr (r, od) \<longleftrightarrow>
     (\<exists>dec settler. ty = orderDataType d \<and> decode d raw = Some dec
        \<and> originDomain dec = localDomain d \<and> senderNonce dec = senderNonces s a
        \<and> mustHaveRemoteCounterpart d (destinationDomain dec) = Some settler
        \<and> od = dec\<lparr>fillDeadline := fdl\<rparr>
        \<and> r = \<lparr>user = a, originChainId = unat (localDomain d), openDeadline = odl,
                 res_fillDeadline = fdl,
                 minReceived = [\<lparr>token = inputToken dec, amount = amountIn dec,
                                 out_recipient = 0, chainId = unat (originDomain dec)\<rparr>],
                 maxSpent = [\<lparr>token = outputToken dec, amount = amountOut dec,
                              out_recipient = recipient dec,
                              chainId = unat (destinationDomain dec)\<rparr>],
                 fillInstructions = [\<lparr>destinationChainId = unat (destinationDomain dec),
                                      destinationSettler = settler, originData = raw\<rparr>]\<rparr>)"
  by (auto simp: resolvedOrder_def Let_def split: option.splits)

lemma sample_decode_bytes:
  "length n \<le> 32 \<Longrightarrow>
     sample_decode (sample_bytes n dl) = Some (sample_order (be_word n) (ucast dl))"
  by (simp add: sample_bytes_def sample_order_def)

lemma decode_sample_bytes:
  "length n \<le> 32 \<Longrightarrow>
     decode (sample_deployment chain) (sample_bytes n dl)
       = Some (sample_order (be_word n) (ucast dl))"
  by (simp add: sample_deployment_def sample_decode_bytes)

lemma be_word_single: "be_word [b] = ucast b"
  by (simp add: be_word_def)

lemmas sample_defs = sample_deployment_def sample_storage_def sample_counterpart_def
  sample_order_def be_word_single sample_decode_bytes

text \<open>
  Claim C3. Resolve succeeds only if the nonce of the decoded order equals the counter
  stored for the sender; once the type tag and the origin domain are accepted, any other
  nonce, smaller or larger, fails with \<open>InvalidSenderNonce\<close>, and the equal nonce
  resolves when the destination has a counterpart.
\<close>

theorem resolvedOrder_nonce_equality:
  assumes "decode d raw = Some dec"
  shows "(\<forall>r. resolvedOrder d s ty a raw odl fdl = Inr r \<longrightarrow> senderNonce dec = senderNonces s a)
       \<and> (ty = orderDataType d \<and> originDomain dec = localDomain d
            \<and> senderNonce dec \<noteq> senderNonces s a
          \<longrightarrow> resolvedOrder d s ty a raw odl fdl = Inl InvalidSenderNonce)
       \<and> (ty = orderDataType d \<and> originDomain dec = localDomain d
            \<and> mustHaveRemoteCounterpart d (destinationDomain dec) \<noteq> None
            \<and> senderNonce dec = senderNonces s a
          \<longrightarrow> (\<exists>r. resolvedOrder d s ty a raw odl fdl = Inr r))"
  using assms by (auto simp: resolvedOrder_def Let_def split: option.splits if_splits)

text \<open>Counter 3: nonces 2 and 4 are refused, nonce 3 resolves.\<close>

theorem resolvedOrder_nonce_equality_witness:
  "resolvedOrder (sample_deployment 1) (sample_storage 3 1000) 13 7 (sample_bytes [2] 50) 0 60
       = Inl InvalidSenderNonce
   \<and> resolvedOrder (sample_deployment 1) (sample_storage 3 1000) 13 7 (sample_bytes [4] 50) 0 60
       = Inl InvalidSenderNonce
   \<and> (\<exists>r. resolvedOrder (sample_deployment 1) (sample_storage 3 1000) 13 7 (sample_bytes [3] 50) 0 60
       = Inr r)"
proof -
  note below = resolvedOrder_nonce_equality [where d = "sample_deployment 1"
      and raw = "sample_bytes [2] 50" and s = "sample_storage 3 1000" and ty = 13 and a = 7
      and odl = 0 and fdl = 60, OF decode_sample_bytes]
  note above = resolvedOrder_nonce_equality [where d = "sample_deployment 1"
      and raw = "sample_bytes [4] 50" and s = "sample_storage 3 1000" and ty = 13 and a = 7
      and odl = 0 and fdl = 60, OF decode_sample_bytes]
  note equal = resolvedOrder_nonce_equality [where d = "sample_deployment 1"
      and raw = "sample_bytes [3] 50" and s = "sample_storage 3 1000" and ty = 13 and a = 7
      and odl = 0 and fdl = 60, OF decode_sample_bytes]
  show ?thesis
    using below above equal by (simp add: sample_defs)
qed

text \<open>
  Claim C5. A resolved order has exactly one \<open>minReceived\<close> entry (input token,
  \<open>amountIn\<close>, origin chain id), exactly one \<open>maxSpent\<close> entry (output token,
  \<open>amountOut\<close>, recipient, destination chain id) and exactly one fill instruction
  (destination chain id, the registered counterpart, the raw order bytes).
\<close>

theorem resolvedOrder_legs:
  assumes "resolvedOrder d s ty a raw odl fdl = Inr (r, od)"
  shows "\<exists>dec settler. decode d raw = Some dec
       \<and> mustHaveRemoteCounterpart d (destinationDomain dec) = Some settler
       \<and> originDomain dec = localDomain d
       \<and> minReceived r = [\<lparr>token = inputToken dec, amount = amountIn dec,
                            out_recipient = 0, chainId = unat (originDomain dec)\<rparr>]
       \<and> maxSpent r = [\<lparr>token = outputToken dec, amount = amountOut dec,
                         out_recipient = recipient dec,
                         chainId = unat (destinationDomain dec)\<rparr>]
       \<and> fillInstructions r = [\<lparr>destinationChainId = unat (destinationDomain dec),
                                 destinationSettler = settler, originData = raw\<rparr>]"
proof -
  from assms obtain dec settler where
    "decode d raw = Some dec"
    "mustHaveRemoteCounterpart d (destinationDomain dec) = Some settler"
    "originDomain dec = localDomain d"
    and r: "r = \<lparr>user = a, originChainId = unat (localDomain d), openDeadline = odl,
                 res_fillDeadline = fdl,
                 minReceived = [\<lparr>token = inputToken dec, amount = amountIn dec,
                                 out_recipient = 0, chainId = unat (originDomain dec)\<rparr>],
                 maxSpent = [\<lparr>token = outputToken dec, amount = amountOut dec,
                              out_recipient = recipient dec,
                              chainId = unat (destinationDomain dec)\<rparr>],
                 fillInstructions = [\<lparr>destinationChainId = unat (destinationDomain dec),
                                      destinationSettler = settler, originData = raw\<rparr>]\<rparr>"
    unfolding resolvedOrder_Inr_iff by blast
  then show ?thesis by simp
qed

lemma sample_resolved:
  "\<exists>r od. resolvedOrder (sample_deployment 1) (sample_storage 3 1000) 13 7 (sample_bytes [3] 50) 0 60
     = Inr (r, od)"
  by (simp add: resolvedOrder_def Let_def sample_defs sample_decode_bytes)

text \<open>The scenario of the spec: domains 1 and 2, 100 in, 95 out.\<close>

theorem resolvedOrder_legs_witness:
  "\<exists>r od. resolvedOrder (sample_deployment 1) (sample_storage 3 1000) 13 7
             (sample_bytes [3] 50) 0 60 = Inr (r, od)
      \<and> map chainId (minReceived r) = [1] \<and> map amount (minReceived r) = [100]
      \<and> map token (minReceived r) = [3]
      \<and> map chainId (maxSpent r) = [2] \<and> map amount (maxSpent r) = [95]
      \<and> map token (maxSpent r) = [4] \<and> map out_recipient (maxSpent r) = [8]
      \<and> fillInstructions r = [\<lparr>destinationChainId = 2, destinationSettler = 162,
                                 originData = sample_bytes [3] 50\<rparr>]"
proof -
  from sample_resolved obtain r od where
    res: "resolvedOrder (sample_deployment 1) (sample_storage 3 1000) 13 7
            (sample_bytes [3] 50) 0 60 = Inr (r, od)"
    by blast
  from resolvedOrder_legs [OF res] obtain dec settler where
    "decode (sample_deployment 1) (sample_bytes [3] 50) = Some dec"
    "mustHaveRemoteCounterpart (sample_deployment 1) (destinationDomain dec) = Some settler"
    "minReceived r = [\<lparr>token = inputToken dec, amount = amountIn dec,
                            out_recipient = 0, chainId = unat (originDomain dec)\<rparr>]"
    "maxSpent r = [\<lparr>token = outputToken dec, amount = amountOut dec,
                         out_recipient = recipient dec,
                         chainId = unat (destinationDomain dec)\<rparr>]"
    "fillInstructions r = [\<lparr>destinationChainId = unat (destinationDomain dec),
                                 destinationSettler = settler, originData = sample_bytes [3] 50\<rparr>]"
    by blast
  then have "map chainId (minReceived r) = [1] \<and> map amount (minReceived r) = [100]
      \<and> map token (minReceived r) = [3]
      \<and> map chainId (maxSpent r) = [2] \<and> map amount (maxSpent r) = [95]
      \<and> map token (maxSpent r) = [4] \<and> map out_recipient (maxSpent r) = [8]
      \<and> fillInstructions r = [\<lparr>destinationChainId = 2, destinationSettler = 162,
                                 originData = sample_bytes [3] 50\<rparr>]"
    by (auto simp: decode_sample_bytes sample_defs)
  with res show ?thesis by (intro exI [of _ r] exI [of _ od] conjI) simp_all
qed

text \<open>
  Claim C6. The order record that Resolve returns is the decoded record with its
  \<open>fillDeadline\<close> replaced by the argument, and the resolved order carries the same
  argument, whatever deadline the raw bytes hold.
\<close>

theorem resolvedOrder_fillDeadline_override:
  assumes "resolvedOrder d s ty a raw odl fdl = Inr (r, od)"
  shows "fillDeadline od = fdl \<and> res_fillDeadline r = fdl
       \<and> (\<exists>dec. decode d raw = Some dec \<and> od = dec\<lparr>fillDeadline := fdl\<rparr>)"
  using assms unfolding resolvedOrder_Inr_iff by auto

text \<open>The bytes hold deadline 50, the caller passes 60.\<close>

theorem resolvedOrder_fillDeadline_override_witness:
  "\<exists>r od. resolvedOrder (sample_deployment 1) (sample_storage 3 1000) 13 7
             (sample_bytes [3] 50) 0 60 = Inr (r, od)
      \<and> decode (sample_deployment 1) (sample_bytes [3] 50) = Some (od\<lparr>fillDeadline := 50\<rparr>)
      \<and> fillDeadline od = 60 \<and> res_fillDeadline r = 60"
proof -
  from sample_resolved obtain r od where
    res: "resolvedOrder (sample_deployment 1) (sample_storage 3 1000) 13 7
            (sample_bytes [3] 50) 0 60 = Inr (r, od)"
    by blast
  from resolvedOrder_fillDeadline_override [OF res] obtain dec where
    "fillDeadline od = 60" "res_fillDeadline r = 60"
    "decode (sample_deployment 1) (sample_bytes [3] 50) = Some dec"
    "od = dec\<lparr>fillDeadline := 60\<rparr>"
    by blast
  then have "decode (sample_deployment 1) (sample_bytes [3] 50) = Some (od\<lparr>fillDeadline := 50\<rparr>)
      \<and> fillDeadline od = 60 \<and> res_fillDeadline r = 60"
    by (auto simp: decode_sample_bytes sample_order_def)
  with res show ?thesis by (intro exI [of _ r] exI [of _ od] conjI) simp_all
qed

section \<open>Properties of \<open>fill\<close>\<close>

lemma transact_Inl: "f s = Inl e \<Longrightarrow> transact f s = (s, Some e)"
  by (simp add: transact_def)

lemma transact_Inr: "f s = Inr s' \<Longrightarrow> transact f s = (s', None)"
  by (simp add: transact_def)

lemma fill_OrderExpired_iff:
  "decode d raw = Some od \<Longrightarrow> oid = getOrderId d od \<Longrightarrow>
     fill d c oid raw s = Inl OrderExpired \<longleftrightarrow> block_timestamp c < ucast (fillDeadline od)"
  by (auto simp: fill_def Let_def split: option.splits)

text \<open>
  Claim C4. When the id recomputed from the decoded raw data differs from the id that
  the caller supplies, Fill reverts with \<open>InvalidOrderId\<close> and the storage is as before.
\<close>

theorem fill_id_mismatch:
  assumes "decode d raw = Some od" and "oid \<noteq> getOrderId d od"
  shows "fill d c oid raw s = Inl InvalidOrderId
       \<and> transact (fill d c oid raw) s = (s, Some InvalidOrderId)"
  using assms by (simp add: fill_def transact_def)

text \<open>Id 5 is not the id of the sample order.\<close>

theorem fill_id_mismatch_witness:
  "transact (fill (sample_deployment 2) \<lparr>msg_sender = 9, block_timestamp = 70\<rparr> 5
      (sample_bytes [3] 50)) (sample_storage 0 1000)
     = (sample_storage 0 1000, Some InvalidOrderId)"
  using fill_id_mismatch [where d = "sample_deployment 2" and raw = "sample_bytes [3] 50"
      and oid = 5 and c = "\<lparr>msg_sender = 9, block_timestamp = 70\<rparr>"
      and s = "sample_storage 0 1000", OF decode_sample_bytes]
  by (simp add: getOrderId_def sample_deployment_def sample_id_def sample_order_def
      be_word_single)

text \<open>
  Claim C2. When the raw data decodes, the id matches, the deadline check of the code
  passes, the destination is this chain, the origin has a counterpart, the status is
  \<open>UNFILLED\<close> and the payment goes through, Fill succeeds and sets the status to
  \<open>FILLED\<close>; a second call with the same id and data at the same or a later time
  reverts with \<open>InvalidOrderStatus\<close> and leaves the storage as it was. In any
  storage, Fill reverts when the status of the id is not \<open>UNFILLED\<close>.
\<close>

theorem fill_exactly_once:
  assumes "decode d raw = Some od"
    and "oid = getOrderId d od"
    and "\<not> block_timestamp c < ucast (fillDeadline od)"
    and "destinationDomain od = localDomain d"
    and "mustHaveRemoteCounterpart d (originDomain od) \<noteq> None"
    and "orderStatus s oid = UNFILLED"
    and "safeTransferFrom d (bytes32ToAddress (outputToken od)) (msg_sender c)
           (bytes32ToAddress (recipient od)) (amountOut od) (tokens s) \<noteq> None"
    and "block_timestamp c \<le> block_timestamp c'"
  shows "(\<exists>s'. fill d c oid raw s = Inr s' \<and> orderStatus s' oid = FILLED
           \<and> fill d c' oid raw s' = Inl InvalidOrderStatus
           \<and> transact (fill d c' oid raw) s' = (s', Some InvalidOrderStatus))
       \<and> (orderStatus s0 oid0 \<noteq> UNFILLED \<longrightarrow> isl (fill d0 c0 oid0 raw0 s0))"
proof (intro conjI impI)
  from assms(5) obtain cp where cp: "mustHaveRemoteCounterpart d (originDomain od) = Some cp"
    by blast
  from assms(7) obtain t where
    t: "safeTransferFrom d (bytes32ToAddress (outputToken od)) (msg_sender c)
           (bytes32ToAddress (recipient od)) (amountOut od) (tokens s) = Some t"
    by blast
  define s' where "s' = s\<lparr>orders := (orders s)(oid := od),
       orderStatus := (orderStatus s)(oid := FILLED),
       orderFiller := (orderFiller s)(oid := msg_sender c),
       emitted := emitted s @ [Filled oid raw []], tokens := t\<rparr>"
  have first: "fill d c oid raw s = Inr s'"
    using assms(1-4,6) cp t by (simp add: fill_def Let_def s'_def)
  have later: "\<not> block_timestamp c' < ucast (fillDeadline od)"
    using assms(3,8) by simp
  have second: "fill d c' oid raw s' = Inl InvalidOrderStatus"
    using assms(1,2,4) cp later by (simp add: fill_def Let_def s'_def)
  have "orderStatus s' oid = FILLED" by (simp add: s'_def)
  moreover have "transact (fill d c' oid raw) s' = (s', Some InvalidOrderStatus)"
    using second by (simp add: transact_def)
  ultimately show "\<exists>s'. fill d c oid raw s = Inr s' \<and> orderStatus s' oid = FILLED
           \<and> fill d c' oid raw s' = Inl InvalidOrderStatus
           \<and> transact (fill d c' oid raw) s' = (s', Some InvalidOrderStatus)"
    using first second by blast
next
  assume "orderStatus s0 oid0 \<noteq> UNFILLED"
  then show "isl (fill d0 c0 oid0 raw0 s0)"
    by (simp add: fill_def Let_def split: option.splits)
qed


text \<open>A fill at time 70 by address 9, then a second attempt at time 80 by address 6.\<close>

theorem fill_exactly_once_witness:
  "\<exists>s'. fill (sample_deployment 2) \<lparr>msg_sender = 9, block_timestamp = 70\<rparr>
          (sample_id (sample_order 3 50)) (sample_bytes [3] 50) (sample_storage 0 1000) = Inr s'
      \<and> orderStatus s' (sample_id (sample_order 3 50)) = FILLED
      \<and> transact (fill (sample_deployment 2) \<lparr>msg_sender = 6, block_timestamp = 80\<rparr>
            (sample_id (sample_order 3 50)) (sample_bytes [3] 50)) s'
          = (s', Some InvalidOrderStatus)"
proof -
  let ?d = "sample_deployment 2" and ?od = "sample_order 3 50"
  let ?c = "\<lparr>msg_sender = 9, block_timestamp = 70\<rparr>"
  let ?c' = "\<lparr>msg_sender = 6, block_timestamp = 80\<rparr>"
  let ?s = "sample_storage 0 1000"
  have decoded: "decode ?d (sample_bytes [3] 50) = Some ?od"
    by (simp add: decode_sample_bytes be_word_single)
  have id: "sample_id ?od = getOrderId ?d ?od"
    by (simp add: getOrderId_def sample_deployment_def)
  have deadline: "\<not> block_timestamp ?c < ucast (fillDeadline ?od)"
    by (simp add: sample_order_def)
  have domain: "destinationDomain ?od = localDomain ?d"
    by (simp add: sample_order_def sample_deployment_def)
  have origin: "mustHaveRemoteCounterpart ?d (originDomain ?od) \<noteq> None"
    by (simp add: sample_order_def sample_deployment_def sample_counterpart_def)
  have unfilled: "orderStatus ?s (sample_id ?od) = UNFILLED"
    by (simp add: sample_storage_def)
  have paid: "safeTransferFrom ?d (bytes32ToAddress (outputToken ?od)) (msg_sender ?c)
           (bytes32ToAddress (recipient ?od)) (amountOut ?od) (tokens ?s) \<noteq> None"
    by (simp add: sample_order_def sample_deployment_def sample_storage_def
        sample_transferFrom_def bytes32ToAddress_def)
  have time: "block_timestamp ?c \<le> block_timestamp ?c'"
    by simp
  from fill_exactly_once [OF decoded id deadline domain origin unfilled paid time]
  show ?thesis by blast
qed

text \<open>
  Claim C1 says that Fill fails with \<open>OrderExpired\<close> exactly when the chain time is at
  or past the deadline. The code compares the other way round,
  \<open>fillDeadline > block.timestamp\<close>: for the sample order with deadline 50, a fill at
  time 40 reverts with \<open>OrderExpired\<close>, and fills at times 50 and 70 succeed.
\<close>

theorem fill_deadline_comparison:
  "fill (sample_deployment 2) \<lparr>msg_sender = 9, block_timestamp = 40\<rparr>
      (sample_id (sample_order 3 50)) (sample_bytes [3] 50) (sample_storage 0 1000)
     = Inl OrderExpired
   \<and> \<not> isl (fill (sample_deployment 2) \<lparr>msg_sender = 9, block_timestamp = 50\<rparr>
      (sample_id (sample_order 3 50)) (sample_bytes [3] 50) (sample_storage 0 1000))
   \<and> \<not> isl (fill (sample_deployment 2) \<lparr>msg_sender = 9, block_timestamp = 70\<rparr>
      (sample_id (sample_order 3 50)) (sample_bytes [3] 50) (sample_storage 0 1000))"
  by (simp add: fill_def Let_def getOrderId_def bytes32ToAddress_def sample_deployment_def
      sample_storage_def sample_counterpart_def sample_order_def be_word_single
      sample_decode_bytes sample_transferFrom_def)

section \<open>Properties of \<open>open\<close> and \<open>openFor\<close>\<close>

lemma open_order_unfold:
  "open_order d c order s =
     (case resolvedOrder d s (onchain_orderDataType order) (msg_sender c)
             (onchain_orderData order) (- 1) (onchain_fillDeadline order) of
        Inl e \<Rightarrow> Inl e
      | Inr (r, od) \<Rightarrow>
          if senderNonces s (msg_sender c) = - 1 then Inl ArithmeticPanic
          else (case safeTransferFrom d (bytes32ToAddress (inputToken od)) (msg_sender c)
                       (this d) (amountIn od) (tokens s) of
                  None \<Rightarrow> Inl TransferFailed
                | Some t \<Rightarrow>
                    Inr (s\<lparr>orders := (orders s)(getOrderId d od := od),
                           orderStatus := (orderStatus s)(getOrderId d od := OPENED),
                           senderNonces := (senderNonces s)
                             (msg_sender c := senderNonces s (msg_sender c) + 1),
                           tokens := t,
                           emitted := emitted s @ [Open (getOrderId d od) r]\<rparr>)))"
  by (simp add: open_order_def bumpNonce_def Let_def split: sum.splits option.splits)

lemma openFor_unfold:
  "openFor d c order s =
     (case resolvedOrder d s (gasless_orderDataType order) (gasless_user order)
             (gasless_orderData order) (gasless_openDeadline order)
             (gasless_fillDeadline order) of
        Inl e \<Rightarrow> Inl e
      | Inr (r, od) \<Rightarrow>
          if senderNonces s (gasless_user order) = - 1 then Inl ArithmeticPanic
          else Inr (s\<lparr>orders := (orders s)(getOrderId d od := od),
                      orderStatus := (orderStatus s)(getOrderId d od := OPENED),
                      senderNonces := (senderNonces s)
                        (gasless_user order := senderNonces s (gasless_user order) + 1),
                      emitted := emitted s @ [Open (getOrderId d od) r]\<rparr>))"
  by (simp add: openFor_def bumpNonce_def Let_def split: sum.splits option.splits)

lemma open_order_reverts:
  "resolvedOrder d s (onchain_orderDataType order) (msg_sender c)
      (onchain_orderData order) (- 1) (onchain_fillDeadline order) = Inl e
   \<Longrightarrow> open_order d c order s = Inl e"
  by (simp add: open_order_unfold)

lemma openFor_reverts:
  "resolvedOrder d s (gasless_orderDataType gorder) (gasless_user gorder)
      (gasless_orderData gorder) (gasless_openDeadline gorder)
      (gasless_fillDeadline gorder) = Inl e
   \<Longrightarrow> openFor d c gorder s = Inl e"
  by (simp add: openFor_unfold)

text \<open>
  The counters start at 0 and only \<open>open\<close> and \<open>openFor\<close> write them, adding one
  per transaction, so after fewer than \<open>2 ^ 256 - 1\<close> transactions no counter is at
  its maximum and the checked increment cannot overflow.
\<close>

lemma unat_Suc_le: "unat (x + 1 :: 'a::len word) \<le> Suc (unat x)"
  by (simp add: unat_word_ariths)

lemma unat_max_uint256: "unat (- 1 :: uint256) = 2 ^ 256 - 1"
  by (simp add: unsigned_minus_1_eq_mask mask_eq_exp_minus_1)

lemma apply_tx_counter:
  "unat (senderNonces (apply_tx d s tx) a) \<le> unat (senderNonces s a) + 1"
proof (cases tx)
  case (OpenTx c order)
  then show ?thesis
    by (auto simp: transact_def open_order_unfold unat_Suc_le
        split: sum.splits option.splits if_splits)
next
  case (OpenForTx c order)
  then show ?thesis
    by (auto simp: transact_def openFor_unfold unat_Suc_le split: sum.splits if_splits)
next
  case (FillTx c orderId originBytes)
  then show ?thesis
    by (auto simp: transact_def fill_def Let_def split: sum.splits option.splits if_splits)
next
  case (TokenTx t)
  then show ?thesis by simp
qed

lemma run_counter:
  "unat (senderNonces (run d s txs) a) \<le> unat (senderNonces s a) + length txs"
  unfolding run_def
proof (induction txs arbitrary: s)
  case Nil
  show ?case by simp
next
  case (Cons tx txs)
  have "unat (senderNonces (foldl (apply_tx d) (apply_tx d s tx) txs) a)
      \<le> unat (senderNonces (apply_tx d s tx) a) + length txs"
    by (rule Cons.IH)
  also have "\<dots> \<le> unat (senderNonces s a) + 1 + length txs"
    using apply_tx_counter [of d s tx a] by simp
  finally show ?case by simp
qed

lemma reached_counter_below_max:
  assumes "length txs < 2 ^ 256 - 1"
  shows "senderNonces (run d (genesis t0) txs) a \<noteq> - 1"
    and "unat (senderNonces (run d (genesis t0) txs) a + 1)
           = unat (senderNonces (run d (genesis t0) txs) a) + 1"
proof -
  have "unat (senderNonces (run d (genesis t0) txs) a) \<le> length txs"
    using run_counter [of d "genesis t0" txs a] by (simp add: genesis_def)
  with assms have below: "unat (senderNonces (run d (genesis t0) txs) a) < 2 ^ 256 - 1"
    by simp
  show "senderNonces (run d (genesis t0) txs) a \<noteq> - 1"
  proof
    assume "senderNonces (run d (genesis t0) txs) a = - 1"
    then have "unat (senderNonces (run d (genesis t0) txs) a) = 2 ^ 256 - 1"
      by (simp only: unat_max_uint256)
    with below show False by simp
  qed
  from below show "unat (senderNonces (run d (genesis t0) txs) a + 1)
           = unat (senderNonces (run d (genesis t0) txs) a) + 1"
    by (simp add: unat_word_ariths)
qed


text \<open>
  Claim C7. In every storage that a new contract reaches by fewer than \<open>2 ^ 256 - 1\<close>
  transactions: Open fails with the error of Resolve, and changes nothing, whenever
  Resolve fails. When Resolve succeeds, \<open>open\<close> stores the order under its id, sets the
  status of the id to \<open>OPENED\<close>, adds one to the sender's counter and moves
  \<open>amountIn\<close> of the input token from the caller to the contract; if the token
  transfer does not complete, the call reverts and none of the writes takes effect.
  \<open>openFor\<close> does the same three writes for the order's user and moves no tokens.
\<close>

theorem open_all_or_nothing:
  assumes "s = run d (genesis t0) txs" and "length txs < 2 ^ 256 - 1"
  shows
  "(resolvedOrder d s (onchain_orderDataType order) (msg_sender c)
           (onchain_orderData order) (- 1) (onchain_fillDeadline order) = Inl e
        \<longrightarrow> transact (open_order d c order) s = (s, Some e))
   \<and> (resolvedOrder d s (onchain_orderDataType order) (msg_sender c)
           (onchain_orderData order) (- 1) (onchain_fillDeadline order) = Inr (r, od)
        \<longrightarrow> (case safeTransferFrom d (bytes32ToAddress (inputToken od)) (msg_sender c)
                     (this d) (amountIn od) (tokens s) of
                None \<Rightarrow> transact (open_order d c order) s = (s, Some TransferFailed)
              | Some t \<Rightarrow> transact (open_order d c order) s =
                  (s\<lparr>orders := (orders s)(getOrderId d od := od),
                     orderStatus := (orderStatus s)(getOrderId d od := OPENED),
                     senderNonces := (senderNonces s)
                       (msg_sender c := senderNonces s (msg_sender c) + 1),
                     tokens := t,
                     emitted := emitted s @ [Open (getOrderId d od) r]\<rparr>, None))
          \<and> unat (senderNonces s (msg_sender c) + 1) = unat (senderNonces s (msg_sender c)) + 1)
   \<and> (resolvedOrder d s (gasless_orderDataType gorder) (gasless_user gorder)
           (gasless_orderData gorder) (gasless_openDeadline gorder)
           (gasless_fillDeadline gorder) = Inl ge
        \<longrightarrow> transact (openFor d c gorder) s = (s, Some ge))
   \<and> (resolvedOrder d s (gasless_orderDataType gorder) (gasless_user gorder)
           (gasless_orderData gorder) (gasless_openDeadline gorder)
           (gasless_fillDeadline gorder) = Inr (gr, god)
        \<longrightarrow> transact (openFor d c gorder) s =
              (s\<lparr>orders := (orders s)(getOrderId d god := god),
                 orderStatus := (orderStatus s)(getOrderId d god := OPENED),
                 senderNonces := (senderNonces s)
                   (gasless_user gorder := senderNonces s (gasless_user gorder) + 1),
                 emitted := emitted s @ [Open (getOrderId d god) gr]\<rparr>, None)
          \<and> unat (senderNonces s (gasless_user gorder) + 1)
              = unat (senderNonces s (gasless_user gorder)) + 1)"
proof -
  note room = reached_counter_below_max [OF assms(2), of d t0, folded assms(1)]
  show ?thesis
  proof (intro conjI impI)
    assume "resolvedOrder d s (onchain_orderDataType order) (msg_sender c)
        (onchain_orderData order) (- 1) (onchain_fillDeadline order) = Inl e"
    then show "transact (open_order d c order) s = (s, Some e)"
      by (simp add: open_order_reverts transact_Inl)
  next
    assume resolved: "resolvedOrder d s (onchain_orderDataType order) (msg_sender c)
        (onchain_orderData order) (- 1) (onchain_fillDeadline order) = Inr (r, od)"
    show "case safeTransferFrom d (bytes32ToAddress (inputToken od)) (msg_sender c)
                 (this d) (amountIn od) (tokens s) of
            None \<Rightarrow> transact (open_order d c order) s = (s, Some TransferFailed)
          | Some t \<Rightarrow> transact (open_order d c order) s =
              (s\<lparr>orders := (orders s)(getOrderId d od := od),
                 orderStatus := (orderStatus s)(getOrderId d od := OPENED),
                 senderNonces := (senderNonces s)
                   (msg_sender c := senderNonces s (msg_sender c) + 1),
                 tokens := t,
                 emitted := emitted s @ [Open (getOrderId d od) r]\<rparr>, None)"
    proof (cases "safeTransferFrom d (bytes32ToAddress (inputToken od)) (msg_sender c)
                 (this d) (amountIn od) (tokens s)")
      case None
      with resolved room(1) have "open_order d c order s = Inl TransferFailed"
        by (simp add: open_order_unfold)
      with None show ?thesis by (simp add: transact_Inl)
    next
      case (Some t)
      with resolved room(1) have "open_order d c order s =
          Inr (s\<lparr>orders := (orders s)(getOrderId d od := od),
                 orderStatus := (orderStatus s)(getOrderId d od := OPENED),
                 senderNonces := (senderNonces s)
                   (msg_sender c := senderNonces s (msg_sender c) + 1),
                 tokens := t,
                 emitted := emitted s @ [Open (getOrderId d od) r]\<rparr>)"
        by (simp add: open_order_unfold)
      with Some show ?thesis by (simp add: transact_Inr)
    qed
  next
    show "unat (senderNonces s (msg_sender c) + 1) = unat (senderNonces s (msg_sender c)) + 1"
      by (rule room(2))
  next
    assume "resolvedOrder d s (gasless_orderDataType gorder) (gasless_user gorder)
        (gasless_orderData gorder) (gasless_openDeadline gorder)
        (gasless_fillDeadline gorder) = Inl ge"
    then show "transact (openFor d c gorder) s = (s, Some ge)"
      by (simp add: openFor_reverts transact_Inl)
  next
    assume "resolvedOrder d s (gasless_orderDataType gorder) (gasless_user gorder)
        (gasless_orderData gorder) (gasless_openDeadline gorder)
        (gasless_fillDeadline gorder) = Inr (gr, god)"
    with room(1) have "openFor d c gorder s =
        Inr (s\<lparr>orders := (orders s)(getOrderId d god := god),
               orderStatus := (orderStatus s)(getOrderId d god := OPENED),
               senderNonces := (senderNonces s)
                 (gasless_user gorder := senderNonces s (gasless_user gorder) + 1),
               emitted := emitted s @ [Open (getOrderId d god) gr]\<rparr>)"
      by (simp add: openFor_unfold)
    then show "transact (openFor d c gorder) s =
        (s\<lparr>orders := (orders s)(getOrderId d god := god),
           orderStatus := (orderStatus s)(getOrderId d god := OPENED),
           senderNonces := (senderNonces s)
             (gasless_user gorder := senderNonces s (gasless_user gorder) + 1),
           emitted := emitted s @ [Open (getOrderId d god) gr]\<rparr>, None)"
      by (rule transact_Inr)
  next
    show "unat (senderNonces s (gasless_user gorder) + 1)
        = unat (senderNonces s (gasless_user gorder)) + 1"
      by (rule room(2))
  qed
qed


lemma sample_payment:
  "sample_transferFrom 3 7 30339 100 (\<lambda>_ _. 1000)
     = Some ((\<lambda>_ _. 1000)(3 := (\<lambda>_. 1000)(7 := 900, 30339 := 1100)))"
  by (simp add: sample_transferFrom_def Let_def)

lemma sample_opened_eq:
  "\<not> funds < 100 \<Longrightarrow>
   sample_opened funds =
     \<lparr>senderNonces = (\<lambda>_. 0)(7 := 1),
      orders = (\<lambda>_. no_order)(sample_id (sample_order 0 60) := sample_order 0 60),
      orderFiller = (\<lambda>_. 0),
      orderStatus = (\<lambda>_. UNFILLED)(sample_id (sample_order 0 60) := OPENED),
      emitted = [Open (sample_id (sample_order 0 60)) (sample_resolved_order 0)],
      tokens = (\<lambda>_ _. funds)(3 := (\<lambda>_. funds)(7 := funds - 100, 30339 := funds + 100))\<rparr>"
  by (simp add: sample_opened_def run_def transact_def open_order_unfold resolvedOrder_def
      Let_def genesis_def sample_call_def sample_onchain_def sample_resolved_order_def
      getOrderId_def bytes32ToAddress_def sample_transferFrom_def sample_deployment_def
      sample_counterpart_def sample_order_def be_word_single sample_decode_bytes)

text \<open>
  After one open, with counter 1: the order with nonce 1 is opened; the order with the
  stale nonce 0 is refused; and where the first payment left the caller 50 of the
  token, the payment of 100 fails and the storage is as before.
\<close>

theorem open_all_or_nothing_witness:
  "transact (open_order (sample_deployment 1) sample_call (sample_onchain 1)) (sample_opened 1000)
     = ((sample_opened 1000)
          \<lparr>orders := (orders (sample_opened 1000))
             (getOrderId (sample_deployment 1) (sample_order 1 60) := sample_order 1 60),
           orderStatus := (orderStatus (sample_opened 1000))
             (getOrderId (sample_deployment 1) (sample_order 1 60) := OPENED),
           senderNonces := (senderNonces (sample_opened 1000))(7 := 2),
           tokens := (\<lambda>_ _. 1000)(3 := (\<lambda>_. 1000)(7 := 800, 30339 := 1200)),
           emitted := emitted (sample_opened 1000)
             @ [Open (getOrderId (sample_deployment 1) (sample_order 1 60))
                  (sample_resolved_order 1)]\<rparr>, None)
   \<and> transact (open_order (sample_deployment 1) sample_call (sample_onchain 0)) (sample_opened 1000)
     = (sample_opened 1000, Some InvalidSenderNonce)
   \<and> transact (open_order (sample_deployment 1) sample_call (sample_onchain 1)) (sample_opened 150)
     = (sample_opened 150, Some TransferFailed)"
proof -
  let ?d = "sample_deployment 1"
  have reached: "sample_opened funds
      = run ?d (genesis (\<lambda>_ _. funds)) [OpenTx sample_call (sample_onchain 0)]" for funds
    by (simp add: sample_opened_def)
  have few: "length [OpenTx sample_call (sample_onchain 0) :: ledger tx] < 2 ^ 256 - 1"
    by simp
  have resolved: "resolvedOrder ?d (sample_opened funds) (onchain_orderDataType (sample_onchain 1))
      (msg_sender sample_call) (onchain_orderData (sample_onchain 1)) (- 1)
      (onchain_fillDeadline (sample_onchain 1)) = Inr (sample_resolved_order 1, sample_order 1 60)"
    if "\<not> funds < 100" for funds
    using that
    by (simp add: sample_opened_eq resolvedOrder_def Let_def sample_call_def sample_onchain_def
        sample_resolved_order_def sample_deployment_def sample_counterpart_def sample_order_def
        be_word_single sample_decode_bytes)
  have stale: "resolvedOrder ?d (sample_opened 1000) (onchain_orderDataType (sample_onchain 0))
      (msg_sender sample_call) (onchain_orderData (sample_onchain 0)) (- 1)
      (onchain_fillDeadline (sample_onchain 0)) = Inl InvalidSenderNonce"
    by (simp add: sample_opened_eq resolvedOrder_def Let_def sample_call_def sample_onchain_def
        sample_deployment_def sample_order_def be_word_single sample_decode_bytes)
  have paid: "safeTransferFrom ?d (bytes32ToAddress (inputToken (sample_order 1 60)))
      (msg_sender sample_call) (this ?d) (amountIn (sample_order 1 60))
      (tokens (sample_opened 1000))
      = Some ((\<lambda>_ _. 1000)(3 := (\<lambda>_. 1000)(7 := 800, 30339 := 1200)))"
    by (simp add: sample_opened_eq sample_deployment_def sample_order_def sample_call_def
        bytes32ToAddress_def sample_transferFrom_def Let_def fun_upd_twist)
  have shortfall: "safeTransferFrom ?d (bytes32ToAddress (inputToken (sample_order 1 60)))
      (msg_sender sample_call) (this ?d) (amountIn (sample_order 1 60))
      (tokens (sample_opened 150)) = None"
    by (simp add: sample_opened_eq sample_deployment_def sample_order_def sample_call_def
        bytes32ToAddress_def sample_transferFrom_def)
  have rich: "\<not> (1000 :: uint256) < 100" and poor: "\<not> (150 :: uint256) < 100"
    by simp_all
  have caller: "msg_sender sample_call = 7"
    by (simp add: sample_call_def)
  have counter: "senderNonces (sample_opened 1000) 7 = 1"
    by (simp add: sample_opened_eq)
  have first: "transact (open_order ?d sample_call (sample_onchain 1)) (sample_opened 1000)
     = ((sample_opened 1000)
          \<lparr>orders := (orders (sample_opened 1000))
             (getOrderId ?d (sample_order 1 60) := sample_order 1 60),
           orderStatus := (orderStatus (sample_opened 1000))
             (getOrderId ?d (sample_order 1 60) := OPENED),
           senderNonces := (senderNonces (sample_opened 1000))(7 := 2),
           tokens := (\<lambda>_ _. 1000)(3 := (\<lambda>_. 1000)(7 := 800, 30339 := 1200)),
           emitted := emitted (sample_opened 1000)
             @ [Open (getOrderId ?d (sample_order 1 60)) (sample_resolved_order 1)]\<rparr>, None)"
    using open_all_or_nothing [OF reached few, where c = sample_call
        and order = "sample_onchain 1", THEN conjunct2, THEN conjunct1, THEN mp,
        OF resolved [OF rich], THEN conjunct1]
    unfolding paid by (simp add: caller counter)
  have second: "transact (open_order ?d sample_call (sample_onchain 0)) (sample_opened 1000)
     = (sample_opened 1000, Some InvalidSenderNonce)"
    using open_all_or_nothing [OF reached few, where c = sample_call
        and order = "sample_onchain 0", THEN conjunct1, THEN mp, OF stale] .
  have third: "transact (open_order ?d sample_call (sample_onchain 1)) (sample_opened 150)
     = (sample_opened 150, Some TransferFailed)"
    using open_all_or_nothing [OF reached few, where c = sample_call
        and order = "sample_onchain 1", THEN conjunct2, THEN conjunct1, THEN mp,
        OF resolved [OF poor], THEN conjunct1]
    unfolding shortfall by simp
  from first second third show ?thesis by (intro conjI)
qed

text \<open>
  Claim C10. The id under which \<open>open\<close> and \<open>openFor\<close> store the order is the id of
  the decoded record with its \<open>fillDeadline\<close> replaced by the caller's value. Fill, on a
  chain with the same codec, accepts for the same raw bytes only the id of the record as
  decoded: with the id that Open used it reverts with \<open>InvalidOrderId\<close> whenever the two
  ids differ.
\<close>

theorem open_id_from_overridden_deadline:
  assumes "decode d raw = Some dec"
    and "onchain_orderData order = raw" and "onchain_fillDeadline order = fdl"
    and "gasless_orderData gorder = raw" and "gasless_fillDeadline gorder = fdl"
  shows "(open_order d c order s = Inr s'
          \<longrightarrow> orders s' = (orders s)(getOrderId d (dec\<lparr>fillDeadline := fdl\<rparr>)
                            := dec\<lparr>fillDeadline := fdl\<rparr>)
            \<and> orderStatus s' = (orderStatus s)(getOrderId d (dec\<lparr>fillDeadline := fdl\<rparr>)
                                  := OPENED))
       \<and> (openFor d c gorder s = Inr gs'
          \<longrightarrow> orders gs' = (orders s)(getOrderId d (dec\<lparr>fillDeadline := fdl\<rparr>)
                             := dec\<lparr>fillDeadline := fdl\<rparr>)
            \<and> orderStatus gs' = (orderStatus s)(getOrderId d (dec\<lparr>fillDeadline := fdl\<rparr>)
                                   := OPENED))
       \<and> (decode dest = decode d \<and> encoder_id dest = encoder_id d
          \<longrightarrow> (fill dest dcall oid raw dstore = Inr dstore' \<longrightarrow> oid = getOrderId d dec)
            \<and> (getOrderId d (dec\<lparr>fillDeadline := fdl\<rparr>) \<noteq> getOrderId d dec
                \<longrightarrow> fill dest dcall (getOrderId d (dec\<lparr>fillDeadline := fdl\<rparr>)) raw dstore
                      = Inl InvalidOrderId))"
proof (intro conjI impI)
  assume "open_order d c order s = Inr s'"
  then obtain r od where
    res: "resolvedOrder d s (onchain_orderDataType order) (msg_sender c) raw (- 1) fdl
            = Inr (r, od)"
    and s': "s' = s\<lparr>orders := (orders s)(getOrderId d od := od),
                    orderStatus := (orderStatus s)(getOrderId d od := OPENED),
                    senderNonces := (senderNonces s)
                      (msg_sender c := senderNonces s (msg_sender c) + 1),
                    tokens := tokens s',
                    emitted := emitted s @ [Open (getOrderId d od) r]\<rparr>"
    using assms(2,3)
    by (auto simp: open_order_unfold split: sum.splits if_splits option.splits)
  from res assms(1) have od: "od = dec\<lparr>fillDeadline := fdl\<rparr>"
    unfolding resolvedOrder_Inr_iff by auto
  show "orders s' = (orders s)(getOrderId d (dec\<lparr>fillDeadline := fdl\<rparr>)
          := dec\<lparr>fillDeadline := fdl\<rparr>)"
    by (subst s') (simp add: od)
  show "orderStatus s' = (orderStatus s)(getOrderId d (dec\<lparr>fillDeadline := fdl\<rparr>) := OPENED)"
    by (subst s') (simp add: od)
next
  assume "openFor d c gorder s = Inr gs'"
  then obtain r od where
    res: "resolvedOrder d s (gasless_orderDataType gorder) (gasless_user gorder) raw
            (gasless_openDeadline gorder) fdl = Inr (r, od)"
    and gs': "gs' = s\<lparr>orders := (orders s)(getOrderId d od := od),
                     orderStatus := (orderStatus s)(getOrderId d od := OPENED),
                     senderNonces := (senderNonces s)
                       (gasless_user gorder := senderNonces s (gasless_user gorder) + 1),
                     emitted := emitted s @ [Open (getOrderId d od) r]\<rparr>"
    using assms(4,5)
    by (auto simp: openFor_unfold split: sum.splits if_splits)
  from res assms(1) have od: "od = dec\<lparr>fillDeadline := fdl\<rparr>"
    unfolding resolvedOrder_Inr_iff by auto
  show "orders gs' = (orders s)(getOrderId d (dec\<lparr>fillDeadline := fdl\<rparr>)
          := dec\<lparr>fillDeadline := fdl\<rparr>)"
    by (simp add: gs' od)
  show "orderStatus gs' = (orderStatus s)(getOrderId d (dec\<lparr>fillDeadline := fdl\<rparr>) := OPENED)"
    by (simp add: gs' od)
next
  assume same: "decode dest = decode d \<and> encoder_id dest = encoder_id d"
  assume "fill dest dcall oid raw dstore = Inr dstore'"
  with same assms(1) show "oid = getOrderId d dec"
    by (simp add: fill_def getOrderId_def split: if_splits)
next
  assume same: "decode dest = decode d \<and> encoder_id dest = encoder_id d"
  assume "getOrderId d (dec\<lparr>fillDeadline := fdl\<rparr>) \<noteq> getOrderId d dec"
  with same assms(1)
  show "fill dest dcall (getOrderId d (dec\<lparr>fillDeadline := fdl\<rparr>)) raw dstore = Inl InvalidOrderId"
    by (simp add: fill_def getOrderId_def)
qed


text \<open>The bytes hold deadline 50 and the caller opens with deadline 60.\<close>

theorem open_id_from_overridden_deadline_witness:
  "\<exists>s' gs'.
      open_order (sample_deployment 1) \<lparr>msg_sender = 7, block_timestamp = 10\<rparr>
        \<lparr>onchain_fillDeadline = 60, onchain_orderDataType = 13,
         onchain_orderData = sample_bytes [3] 50\<rparr> (sample_storage 3 1000) = Inr s'
    \<and> openFor (sample_deployment 1) \<lparr>msg_sender = 9, block_timestamp = 10\<rparr>
        \<lparr>gasless_user = 7, gasless_openDeadline = 20, gasless_fillDeadline = 60,
         gasless_orderDataType = 13, gasless_orderData = sample_bytes [3] 50\<rparr>
        (sample_storage 3 1000) = Inr gs'
    \<and> orderStatus s' (sample_id (sample_order 3 60)) = OPENED
    \<and> orderStatus s' (sample_id (sample_order 3 50)) = UNFILLED
    \<and> orderStatus gs' (sample_id (sample_order 3 60)) = OPENED
    \<and> orderStatus gs' (sample_id (sample_order 3 50)) = UNFILLED
    \<and> fill (sample_deployment 2) \<lparr>msg_sender = 9, block_timestamp = 70\<rparr>
          (sample_id (sample_order 3 60)) (sample_bytes [3] 50) (sample_storage 0 1000)
        = Inl InvalidOrderId"
proof -
  let ?d = "sample_deployment 1" and ?d2 = "sample_deployment 2"
  let ?c = "\<lparr>msg_sender = 7, block_timestamp = 10\<rparr>"
  let ?gc = "\<lparr>msg_sender = 9, block_timestamp = 10\<rparr>"
  let ?c2 = "\<lparr>msg_sender = 9, block_timestamp = 70\<rparr>"
  let ?order = "\<lparr>onchain_fillDeadline = 60, onchain_orderDataType = 13,
         onchain_orderData = sample_bytes [3] 50\<rparr>"
  let ?gorder = "\<lparr>gasless_user = 7, gasless_openDeadline = 20, gasless_fillDeadline = 60,
         gasless_orderDataType = 13, gasless_orderData = sample_bytes [3] 50\<rparr>"
  let ?s = "sample_storage 3 1000"
  have decoded: "decode ?d (sample_bytes [3] 50) = Some (sample_order 3 50)"
    by (simp add: decode_sample_bytes be_word_single)
  have overridden: "(sample_order 3 50)\<lparr>fillDeadline := 60\<rparr> = sample_order 3 60"
    by (simp add: sample_order_def)
  have ids: "getOrderId ?d (sample_order 3 dl) = sample_id (sample_order 3 dl)" for dl
    by (simp add: getOrderId_def sample_deployment_def)
  have differ: "sample_id (sample_order 3 50) \<noteq> sample_id (sample_order 3 60)"
    by (simp add: sample_id_def sample_order_def)
  have codec: "decode ?d2 = decode ?d \<and> encoder_id ?d2 = encoder_id ?d"
    by (simp add: sample_deployment_def)
  obtain s' where opened: "open_order ?d ?c ?order ?s = Inr s'"
    by (simp add: open_order_unfold resolvedOrder_def Let_def sample_defs
        bytes32ToAddress_def sample_payment)
  obtain gs' where gopened: "openFor ?d ?gc ?gorder ?s = Inr gs'"
    by (simp add: openFor_unfold resolvedOrder_def Let_def sample_defs)
  note rule = open_id_from_overridden_deadline [where d = ?d and raw = "sample_bytes [3] 50"
      and order = ?order and gorder = ?gorder and fdl = 60 and s = ?s and dest = ?d2,
      OF decoded, unfolded overridden ids]
  have o: "orderStatus s' = (orderStatus ?s)(sample_id (sample_order 3 60) := OPENED)"
    using rule [where c = ?c and s' = s', THEN conjunct1] opened by simp
  have g: "orderStatus gs' = (orderStatus ?s)(sample_id (sample_order 3 60) := OPENED)"
    using rule [where c = ?gc and gs' = gs', THEN conjunct2, THEN conjunct1] gopened by simp
  have f: "fill ?d2 ?c2 (sample_id (sample_order 3 60)) (sample_bytes [3] 50)
      (sample_storage 0 1000) = Inl InvalidOrderId"
    using rule [where dcall = ?c2 and dstore = "sample_storage 0 1000",
        THEN conjunct2, THEN conjunct2] codec differ
    by simp
  have "orderStatus s' (sample_id (sample_order 3 60)) = OPENED
      \<and> orderStatus s' (sample_id (sample_order 3 50)) = UNFILLED
      \<and> orderStatus gs' (sample_id (sample_order 3 60)) = OPENED
      \<and> orderStatus gs' (sample_id (sample_order 3 50)) = UNFILLED"
    using differ by (simp add: o g sample_storage_def)
  with opened gopened f show ?thesis
    by (intro exI [of _ s'] exI [of _ gs'] conjI) simp_all
qed

section \<open>Properties of \<open>getMultiProvider\<close>\<close>

text \<open>
  Claim C8. With neither a private key nor a mnemonic (each \<open>undefined\<close> or empty),
  \<open>getMultiProvider\<close> throws its configuration error before it builds anything. With
  at least one of them it never throws that error, and the shared signer is the wallet
  built from the private key when there is one, otherwise the wallet built from the
  mnemonic, provided the wallet constructor returns.
\<close>

theorem getMultiProvider_credentials:
  "(\<not> truthy (PRIVATE_KEY cfg) \<and> \<not> truthy (MNEMONIC cfg)
      \<longrightarrow> getMultiProvider lib cfg =
            ([], Inl (ConfigurationError ''Either a private key or mnemonic must be provided'')))
   \<and> (truthy (PRIVATE_KEY cfg) \<or> truthy (MNEMONIC cfg)
      \<longrightarrow> snd (getMultiProvider lib cfg) \<noteq> Inl (ConfigurationError msg))
   \<and> (PRIVATE_KEY cfg = Some key \<and> key \<noteq> [] \<and> newNonceKeeperWallet lib (ensure0x lib key) = Some w
      \<longrightarrow> snd (getMultiProvider lib cfg) = Inr \<lparr>sharedSigner = Some w\<rparr>)
   \<and> (\<not> truthy (PRIVATE_KEY cfg) \<and> MNEMONIC cfg = Some phrase \<and> phrase \<noteq> []
        \<and> fromMnemonic lib phrase = Some mw
      \<longrightarrow> snd (getMultiProvider lib cfg) = Inr \<lparr>sharedSigner = Some mw\<rparr>)"
proof (intro conjI impI)
  assume "\<not> truthy (PRIVATE_KEY cfg) \<and> \<not> truthy (MNEMONIC cfg)"
  then show "getMultiProvider lib cfg =
      ([], Inl (ConfigurationError ''Either a private key or mnemonic must be provided''))"
    by (simp add: getMultiProvider_def)
next
  assume "truthy (PRIVATE_KEY cfg) \<or> truthy (MNEMONIC cfg)"
  then show "snd (getMultiProvider lib cfg) \<noteq> Inl (ConfigurationError msg)"
    by (auto simp: getMultiProvider_def Let_def split: option.splits)
next
  assume "PRIVATE_KEY cfg = Some key \<and> key \<noteq> []
      \<and> newNonceKeeperWallet lib (ensure0x lib key) = Some w"
  then show "snd (getMultiProvider lib cfg) = Inr \<lparr>sharedSigner = Some w\<rparr>"
    by (simp add: getMultiProvider_def truthy_def string_of_def)
next
  assume "\<not> truthy (PRIVATE_KEY cfg) \<and> MNEMONIC cfg = Some phrase \<and> phrase \<noteq> []
      \<and> fromMnemonic lib phrase = Some mw"
  then show "snd (getMultiProvider lib cfg) = Inr \<lparr>sharedSigner = Some mw\<rparr>"
    by (simp add: getMultiProvider_def truthy_def string_of_def)
qed

text \<open>No credential, an empty key, a key with a mnemonic, and a mnemonic alone.\<close>

theorem getMultiProvider_credentials_witness:
  "getMultiProvider sample_lib \<lparr>PRIVATE_KEY = None, MNEMONIC = None\<rparr>
     = ([], Inl (ConfigurationError ''Either a private key or mnemonic must be provided''))
   \<and> getMultiProvider sample_lib \<lparr>PRIVATE_KEY = Some '''', MNEMONIC = None\<rparr>
     = ([], Inl (ConfigurationError ''Either a private key or mnemonic must be provided''))
   \<and> snd (getMultiProvider sample_lib \<lparr>PRIVATE_KEY = Some ''ab'', MNEMONIC = Some ''test junk''\<rparr>)
     = Inr \<lparr>sharedSigner = Some (KeyWallet ''0xab'')\<rparr>
   \<and> snd (getMultiProvider sample_lib \<lparr>PRIVATE_KEY = None, MNEMONIC = Some ''test junk''\<rparr>)
     = Inr \<lparr>sharedSigner = Some (MnemonicWallet ''test junk'')\<rparr>"
  using getMultiProvider_credentials [where lib = sample_lib
      and cfg = "\<lparr>PRIVATE_KEY = None, MNEMONIC = None\<rparr>", THEN conjunct1]
    getMultiProvider_credentials [where lib = sample_lib
      and cfg = "\<lparr>PRIVATE_KEY = Some '''', MNEMONIC = None\<rparr>", THEN conjunct1]
    getMultiProvider_credentials [where lib = sample_lib
      and cfg = "\<lparr>PRIVATE_KEY = Some ''ab'', MNEMONIC = Some ''test junk''\<rparr>"
      and key = "''ab''" and w = "KeyWallet ''0xab''",
      THEN conjunct2, THEN conjunct2, THEN conjunct1]
    getMultiProvider_credentials [where lib = sample_lib
      and cfg = "\<lparr>PRIVATE_KEY = None, MNEMONIC = Some ''test junk''\<rparr>"
      and phrase = "''test junk''" and mw = "MnemonicWallet ''test junk''",
      THEN conjunct2, THEN conjunct2, THEN conjunct2]
  by (simp add: truthy_def sample_lib_def)

end
